theory Spec2Isabelle
  imports Main "HOL-Library.Monad_Syntax"
begin

section \<open>AskLlama: the e-mail task classifier request\<close>

text \<open>
  The repository has two Python modules. \<^verbatim>\<open>config.py\<close> reads two environment variables
  and derives the API URL, the default model name and the bearer token. \<^verbatim>\<open>fc.py\<close>
  defines \<^verbatim>\<open>is_task_email\<close>, which builds headers and a JSON payload and hands them to
  \<^verbatim>\<open>requests.post\<close>, returning what that call returns.
\<close>

subsection \<open>Python values\<close>

text \<open>
  The values the two modules handle: \<^verbatim>\<open>None\<close>, booleans, strings, lists and dictionaries
  with string keys. A dictionary is an association list, since Python keeps the insertion
  order of the keys and the rendering of the schema in the system message depends on it.
\<close>

datatype py =
    PyNone
  | PyBool bool
  | PyStr string
  | PyList "py list"
  | PyDict "(string \<times> py) list"

text \<open>\<^verbatim>\<open>d[k]\<close> and \<^verbatim>\<open>xs[i]\<close>, with \<open>None\<close> where Python raises.\<close>

fun py_get :: "string \<Rightarrow> py \<Rightarrow> py option" where
  "py_get k (PyDict kvs) = map_of kvs k"
| "py_get k v = None"

fun py_index :: "nat \<Rightarrow> py \<Rightarrow> py option" where
  "py_index i (PyList xs) = (if i < length xs then Some (xs ! i) else None)"
| "py_index i v = None"

fun py_keys :: "py \<Rightarrow> string list option" where
  "py_keys (PyDict kvs) = Some (map fst kvs)"
| "py_keys v = None"


subsection \<open>\<^verbatim>\<open>repr\<close> and \<^verbatim>\<open>str\<close>, as the f-strings use them\<close>

text \<open>
  An f-string field \<^verbatim>\<open>{x}\<close> inserts \<^verbatim>\<open>str(x)\<close>: a string is inserted as it is,
  \<^verbatim>\<open>None\<close> gives the text \<^verbatim>\<open>None\<close>, and a dictionary gives its \<^verbatim>\<open>repr\<close>, in which
  every key and every string value is rendered by the \<^verbatim>\<open>repr\<close> of strings: single quotes,
  unless the string has a single quote and no double quote; the quote and the backslash
  escaped by a backslash; tab, newline and carriage return as \<^verbatim>\<open>\t\<close>, \<^verbatim>\<open>\n\<close>, \<^verbatim>\<open>\r\<close>; the
  other ASCII control characters as \<^verbatim>\<open>\xhh\<close>. Characters beyond ASCII are left as they
  are (the strings rendered by the source are ASCII literals).
\<close>

definition hex_digit :: "nat \<Rightarrow> char" where
  "hex_digit n = ''0123456789abcdef'' ! (n mod 16)"

definition repr_quote :: "string \<Rightarrow> char" where
  "repr_quote s =
     (if CHR 0x27 \<in> set s \<and> CHR 0x22 \<notin> set s then CHR 0x22 else CHR 0x27)"

definition repr_char :: "char \<Rightarrow> char \<Rightarrow> string" where
  "repr_char q c =
     (if c = q \<or> c = CHR 0x5C then [CHR 0x5C, c]
      else if c = CHR 0x09 then [CHR 0x5C, CHR ''t'']
      else if c = CHR 0x0A then [CHR 0x5C, CHR ''n'']
      else if c = CHR 0x0D then [CHR 0x5C, CHR ''r'']
      else if of_char c < (32::nat) \<or> of_char c = (127::nat)
        then [CHR 0x5C, CHR ''x'', hex_digit (of_char c div 16), hex_digit (of_char c)]
      else [c])"

definition str_repr :: "string \<Rightarrow> string" where
  "str_repr s = (let q = repr_quote s in [q] @ concat (map (repr_char q) s) @ [q])"

fun join :: "string \<Rightarrow> string list \<Rightarrow> string" where
  "join sep [] = []"
| "join sep [x] = x"
| "join sep (x # y # ys) = x @ sep @ join sep (y # ys)"

fun py_repr :: "py \<Rightarrow> string" where
  "py_repr PyNone = ''None''"
| "py_repr (PyBool b) = (if b then ''True'' else ''False'')"
| "py_repr (PyStr s) = str_repr s"
| "py_repr (PyList xs) = ''['' @ join '', '' (map py_repr xs) @ '']''"
| "py_repr (PyDict kvs) =
     ''{'' @ join '', '' (map (\<lambda>kv. str_repr (fst kv) @ '': '' @ py_repr (snd kv)) kvs) @ ''}''"

fun py_str :: "py \<Rightarrow> string" where
  "py_str (PyStr s) = s"
| "py_str v = py_repr v"

subsection \<open>The process environment and \<^verbatim>\<open>config.py\<close>\<close>

text \<open>
  The environment is a list of name/value pairs; \<^verbatim>\<open>os.getenv\<close> returns the value of the
  variable, or \<^verbatim>\<open>None\<close> when the variable is not set.
\<close>

type_synonym env = "(string \<times> string) list"

definition os_getenv :: "env \<Rightarrow> string \<Rightarrow> py" where
  "os_getenv e name = (case map_of e name of None \<Rightarrow> PyNone | Some v \<Rightarrow> PyStr v)"

text \<open>A Python exception, by the name of its class.\<close>

datatype exn = Raised string

text \<open>The names bound by \<^verbatim>\<open>config.py\<close>.\<close>

record config =
  llm_address :: py
  api_url :: string
  default_model :: string
  jwt :: py

text \<open>
  Executing the module body. No statement of the module raises: the result is a sum only
  so that a property of the form "loading fails" or "loading does not fail" is a
  statement about its value.
\<close>

definition config_load :: "env \<Rightarrow> exn + config" where
  "config_load e =
     (let llm_address = os_getenv e ''LOCAL_LLM_BASE_ADDRESS'';
          api_url = ''http://'' @ py_str llm_address @ ''/api/chat/completions'';
          default_model = ''llama3.2:latest'';
          jwt = os_getenv e ''OPEN_WEBUI_JWT''
      in Inr \<lparr>llm_address = llm_address, api_url = api_url,
               default_model = default_model, jwt = jwt\<rparr>)"

subsection \<open>The HTTP client and the program state\<close>

datatype http_method = GET | POST

text \<open>What \<^verbatim>\<open>requests.post(url, headers=..., json=...)\<close> is given.\<close>

record request =
  verb :: http_method
  url :: string
  headers :: "(string \<times> string) list"
  json :: py

record response =
  status_code :: int
  response_headers :: "(string \<times> string) list"
  body :: string

text \<open>
  The state of the program: the names \<^verbatim>\<open>fc.py\<close> imports from \<^verbatim>\<open>config\<close>, its own
  global \<^verbatim>\<open>model\<close>, and the trace of the requests handed to the HTTP client, oldest
  first.
\<close>

record world =
  imported :: config
  model :: string
  outbox :: "request list"

text \<open>
  Everything behind \<^verbatim>\<open>requests.post\<close> (the client library, the network and the remote
  service) is a parameter: given the requests made so far and the new one, it answers
  with a response or raises.
\<close>

type_synonym server = "request list \<Rightarrow> request \<Rightarrow> exn + response"

definition requests_post ::
  "server \<Rightarrow> string \<Rightarrow> (string \<times> string) list \<Rightarrow> py \<Rightarrow> world \<Rightarrow> (exn + response) \<times> world" where
  "requests_post srv u hs js w =
     (let r = \<lparr>verb = POST, url = u, headers = hs, json = js\<rparr>
      in (srv (outbox w) r, w\<lparr>outbox := outbox w @ [r]\<rparr>))"

subsection \<open>\<^verbatim>\<open>fc.py\<close>\<close>

text \<open>Importing \<^verbatim>\<open>fc\<close>: \<^verbatim>\<open>config\<close> is loaded, then \<^verbatim>\<open>model = default_model\<close>.\<close>

definition fc_load :: "env \<Rightarrow> exn + world" where
  "fc_load e =
     (case config_load e of
        Inl x \<Rightarrow> Inl x
      | Inr c \<Rightarrow> Inr \<lparr>imported = c, model = default_model c, outbox = []\<rparr>)"

definition is_task_email :: "server \<Rightarrow> string \<Rightarrow> world \<Rightarrow> (exn + response) \<times> world" where
  "is_task_email srv email_content w =
     (let headers =
            [(''Authorization'', ''Bearer '' @ py_str (jwt (imported w))),
             (''Content-Type'', ''application/json'')];
          schema = PyDict
            [(''result'', PyDict
               [(''type'', PyStr ''boolean''),
                (''description'',
                 PyStr ''True if the email contains a task, false otherwise.'')]),
             (''task_subject'', PyDict
               [(''type'', PyStr ''string''),
                (''description'',
                 PyStr ''Then the subject of the task, if result is true.'')]),
             (''task_description'', PyDict
               [(''type'', PyStr ''string''),
                (''description'',
                 PyStr ''A description of the task that the user needs to do, if result is true.'')])];
          payload = PyDict
            [(''model'', PyStr (model w)),
             (''messages'', PyList
               [PyDict
                  [(''role'', PyStr ''system''),
                   (''content'', PyStr
                      (''You are a helpful AI assistant. The user will provide the content of an email ''
                       @ ''and you will respond according to the provided schema: ''
                       @ py_str schema @ ''.''))],
                PyDict
                  [(''role'', PyStr ''user''),
                   (''content'', PyStr email_content)]]),
             (''format'', PyDict
               [(''type'', PyStr ''object''),
                (''properties'', schema)]),
             (''stream'', PyBool False)];
          response = requests_post srv (api_url (imported w)) headers payload w
      in response)"

subsection \<open>Observing one call\<close>

text \<open>
  The requests one call of \<^verbatim>\<open>is_task_email\<close> adds to the trace, the JSON payload of the
  request it made, and the value of a request's \<^verbatim>\<open>Authorization\<close> header.
\<close>

definition posted :: "server \<Rightarrow> string \<Rightarrow> world \<Rightarrow> request list" where
  "posted srv email_content w =
     drop (length (outbox w)) (outbox (snd (is_task_email srv email_content w)))"

definition payload :: "server \<Rightarrow> string \<Rightarrow> world \<Rightarrow> py" where
  "payload srv email_content w =
     json (last (outbox (snd (is_task_email srv email_content w))))"

definition authorization :: "request \<Rightarrow> string option" where
  "authorization r = map_of (headers r) ''Authorization''"

text \<open>
  The program from its start: \<^verbatim>\<open>fc\<close> is imported in the environment \<open>e\<close>, then
  \<^verbatim>\<open>is_task_email\<close> is called once. \<open>load_error\<close> is the exception of the import, if
  any; \<open>sent_by\<close> is the trace of requests at the end.
\<close>

definition load_error :: "env \<Rightarrow> exn option" where
  "load_error e = (case fc_load e of Inl x \<Rightarrow> Some x | Inr w \<Rightarrow> None)"

definition sent_by :: "env \<Rightarrow> server \<Rightarrow> string \<Rightarrow> request list" where
  "sent_by e srv email_content =
     (case fc_load e of
        Inl x \<Rightarrow> []
      | Inr w \<Rightarrow> outbox (snd (is_task_email srv email_content w)))"

text \<open>What Python prints for the schema dictionary of \<^verbatim>\<open>is_task_email\<close>.\<close>

definition schema_text :: string where
  "schema_text = ''{'result': {'type': 'boolean', 'description': 'True if the email contains a task, false otherwise.'}, 'task_subject': {'type': 'string', 'description': 'Then the subject of the task, if result is true.'}, 'task_description': {'type': 'string', 'description': 'A description of the task that the user needs to do, if result is true.'}}''"

subsection \<open>Sample inputs\<close>

text \<open>
  An environment with both variables set and the state after importing \<^verbatim>\<open>fc\<close> in it; a
  service that answers every request with status 200, and one that cannot be reached.
\<close>

definition sample_env :: env where
  "sample_env =
     [(''LOCAL_LLM_BASE_ADDRESS'', ''localhost:3000''), (''OPEN_WEBUI_JWT'', ''secret'')]"

definition sample_world :: world where
  "sample_world =
     \<lparr>imported =
        \<lparr>llm_address = PyStr ''localhost:3000'',
         api_url = ''http://localhost:3000/api/chat/completions'',
         default_model = ''llama3.2:latest'',
         jwt = PyStr ''secret''\<rparr>,
      model = ''llama3.2:latest'',
      outbox = []\<rparr>"

definition sample_server :: server where
  "sample_server past r = Inr \<lparr>status_code = 200, response_headers = [], body = ''{}''\<rparr>"

definition down_server :: server where
  "down_server past r = Inl (Raised ''ConnectionError'')"

text \<open>
  A service whose answer depends on the request: it sends back the request's headers, and
  as body the content of the last message of the payload.
\<close>

definition echo_server :: server where
  "echo_server past r =
     Inr \<lparr>status_code = 200,
          response_headers = headers r,
          body =
            (case py_get ''messages'' (json r) \<bind> py_index 1 \<bind> py_get ''content'' of
               Some (PyStr t) \<Rightarrow> t
             | _ \<Rightarrow> [])\<rparr>"

section \<open>Properties\<close>

subsection \<open>Helper facts\<close>

lemma sample_world_loaded: "fc_load sample_env = Inr sample_world"
  by (simp add: fc_load_def config_load_def os_getenv_def sample_env_def sample_world_def)

lemma schema_repr:
  "py_repr
     (PyDict
       [(''result'', PyDict
          [(''type'', PyStr ''boolean''),
           (''description'',
            PyStr ''True if the email contains a task, false otherwise.'')]),
        (''task_subject'', PyDict
          [(''type'', PyStr ''string''),
           (''description'',
            PyStr ''Then the subject of the task, if result is true.'')]),
        (''task_description'', PyDict
          [(''type'', PyStr ''string''),
           (''description'',
            PyStr ''A description of the task that the user needs to do, if result is true.'')])]) = schema_text"
  by code_simp

lemma str_repr_plain: "str_repr ''boolean'' = [CHR 0x27] @ ''boolean'' @ [CHR 0x27]"
  by code_simp

lemma str_repr_quotes: "str_repr ''it's'' = [CHR 0x22] @ ''it's'' @ [CHR 0x22]"
  by code_simp

lemma str_repr_escapes:
  "str_repr [CHR 0x01, CHR 0x0A, CHR 0x5C, CHR 0x7F] =
     [CHR 0x27, CHR 0x5C, CHR ''x'', CHR ''0'', CHR ''1'', CHR 0x5C, CHR ''n'',
      CHR 0x5C, CHR 0x5C, CHR 0x5C, CHR ''x'', CHR ''7'', CHR ''f'', CHR 0x27]"
  by code_simp

lemma is_task_email_sample:
  "is_task_email sample_server ''Happy birthday!'' sample_world =
     (Inr \<lparr>status_code = 200, response_headers = [], body = ''{}''\<rparr>,
      sample_world\<lparr>outbox :=
        [\<lparr>verb = POST,
          url = ''http://localhost:3000/api/chat/completions'',
          headers =
            [(''Authorization'', ''Bearer secret''),
             (''Content-Type'', ''application/json'')],
          json = PyDict
            [(''model'', PyStr ''llama3.2:latest''),
             (''messages'', PyList
               [PyDict
                  [(''role'', PyStr ''system''),
                   (''content'', PyStr
                      (''You are a helpful AI assistant. The user will provide the content of an email and you will respond according to the provided schema: ''
                       @ schema_text @ ''.''))],
                PyDict
                  [(''role'', PyStr ''user''),
                   (''content'', PyStr ''Happy birthday!'')]]),
             (''format'', PyDict
               [(''type'', PyStr ''object''),
                (''properties'',
                 PyDict
       [(''result'', PyDict
          [(''type'', PyStr ''boolean''),
           (''description'',
            PyStr ''True if the email contains a task, false otherwise.'')]),
        (''task_subject'', PyDict
          [(''type'', PyStr ''string''),
           (''description'',
            PyStr ''Then the subject of the task, if result is true.'')]),
        (''task_description'', PyDict
          [(''type'', PyStr ''string''),
           (''description'',
            PyStr ''A description of the task that the user needs to do, if result is true.'')])])]),
             (''stream'', PyBool False)]\<rparr>]\<rparr>)"
  by (simp del: py_repr.simps
      add: is_task_email_def requests_post_def Let_def schema_repr sample_server_def
        sample_world_def)

subsection \<open>The user message\<close>

text \<open>
  C1. For every input string \<open>s\<close>, the call hands exactly one request to the HTTP client,
  a POST, and in its payload the content of the second element of \<^verbatim>\<open>messages\<close> is the
  string \<open>s\<close> itself, unchanged.
\<close>

theorem user_content_verbatim:
  "map verb (posted srv s w) = [POST] \<and>
   (py_get ''messages'' (payload srv s w) \<bind> py_index 1 \<bind> py_get ''content'')
     = Some (PyStr s)"
  by (simp add: posted_def payload_def is_task_email_def requests_post_def Let_def)

theorem user_content_verbatim_witness:
  "map verb (posted sample_server ''Please send the Q3 report by Friday'' sample_world) = [POST] \<and>
   (py_get ''messages'' (payload sample_server ''Please send the Q3 report by Friday'' sample_world)
      \<bind> py_index 1 \<bind> py_get ''content'')
     = Some (PyStr ''Please send the Q3 report by Friday'')"
  by (rule user_content_verbatim [of sample_server "''Please send the Q3 report by Friday''" sample_world])

subsection \<open>The bearer token\<close>

text \<open>
  C2, as claimed: the \<^verbatim>\<open>Authorization\<close> header is \<^verbatim>\<open>Bearer\<close> followed by the configured
  token, and without a configured token (the variable absent or empty) loading fails
  with a configuration error before any request is made. The code does not do the
  second part: with no variable set, loading succeeds and the one request made carries
  \<^verbatim>\<open>Bearer None\<close>; with the variable set to the empty string, loading succeeds and the
  request carries \<^verbatim>\<open>Bearer\<close> followed by a space and nothing else.
\<close>

theorem missing_token_no_error_counterexample:
  "load_error [] = None \<and>
   map authorization (sent_by [] sample_server ''Happy birthday!'') = [Some ''Bearer None''] \<and>
   load_error [(''OPEN_WEBUI_JWT'', '''')] = None \<and>
   map authorization (sent_by [(''OPEN_WEBUI_JWT'', '''')] sample_server ''Happy birthday!'')
     = [Some ''Bearer '']"
  by (simp add: load_error_def sent_by_def authorization_def fc_load_def config_load_def
      os_getenv_def is_task_email_def requests_post_def Let_def)

text \<open>
  C2, amended. The \<^verbatim>\<open>Authorization\<close> header of the request made by \<^verbatim>\<open>is_task_email\<close> is
  \<^verbatim>\<open>Bearer\<close>, a space, and the text of the module-level \<^verbatim>\<open>jwt\<close>. Loading raises no error
  in any environment; started in environment \<open>e\<close>, the program makes one request, whose
  header ends with the value of \<^verbatim>\<open>OPEN_WEBUI_JWT\<close> when the variable is set (also when it
  is set to the empty string) and with the text \<^verbatim>\<open>None\<close> when it is absent.
\<close>

theorem authorization_header:
  "map authorization (posted srv s w) = [Some (''Bearer '' @ py_str (jwt (imported w)))] \<and>
   load_error e = None \<and>
   map authorization (sent_by e srv s) =
     [Some (''Bearer '' @
        (case map_of e ''OPEN_WEBUI_JWT'' of None \<Rightarrow> ''None'' | Some t \<Rightarrow> t))]"
  by (simp add: posted_def load_error_def sent_by_def authorization_def fc_load_def
      config_load_def os_getenv_def is_task_email_def requests_post_def Let_def
      split: option.split)

theorem authorization_header_witness:
  "map authorization (posted sample_server ''Happy birthday!'' sample_world)
     = [Some ''Bearer secret''] \<and>
   load_error sample_env = None \<and>
   map authorization (sent_by sample_env sample_server ''Happy birthday!'')
     = [Some ''Bearer secret'']"
  using authorization_header [of sample_server "''Happy birthday!''" sample_world sample_env]
  by (simp add: sample_env_def sample_world_def)

subsection \<open>The fixed fields of the payload\<close>

text \<open>
  C3. For every input string, the \<^verbatim>\<open>stream\<close> field of the payload of the request made is
  the boolean false.
\<close>

theorem stream_false:
  "map (py_get ''stream'' \<circ> json) (posted srv s w) = [Some (PyBool False)]"
  by (simp add: posted_def is_task_email_def requests_post_def Let_def)

theorem stream_false_witness:
  "map (py_get ''stream'' \<circ> json) (posted down_server [] sample_world)
     = [Some (PyBool False)]"
  by (rule stream_false [of down_server "[]" sample_world])

text \<open>
  C4. For every input string, the \<^verbatim>\<open>format\<close> field of the payload is a dictionary with
  the keys \<^verbatim>\<open>type\<close> and \<^verbatim>\<open>properties\<close>; its \<^verbatim>\<open>type\<close> is the string \<^verbatim>\<open>object\<close>; the keys of
  its \<^verbatim>\<open>properties\<close> are exactly \<^verbatim>\<open>result\<close>, \<^verbatim>\<open>task_subject\<close> and \<^verbatim>\<open>task_description\<close>,
  declared with the types \<^verbatim>\<open>boolean\<close>, \<^verbatim>\<open>string\<close> and \<^verbatim>\<open>string\<close>.
\<close>

theorem format_schema:
  "(py_get ''format'' (payload srv s w) \<bind> py_keys) = Some [''type'', ''properties''] \<and>
   (py_get ''format'' (payload srv s w) \<bind> py_get ''type'') = Some (PyStr ''object'') \<and>
   (py_get ''format'' (payload srv s w) \<bind> py_get ''properties'' \<bind> py_keys)
     = Some [''result'', ''task_subject'', ''task_description''] \<and>
   (py_get ''format'' (payload srv s w) \<bind> py_get ''properties''
      \<bind> py_get ''result'' \<bind> py_get ''type'') = Some (PyStr ''boolean'') \<and>
   (py_get ''format'' (payload srv s w) \<bind> py_get ''properties''
      \<bind> py_get ''task_subject'' \<bind> py_get ''type'') = Some (PyStr ''string'') \<and>
   (py_get ''format'' (payload srv s w) \<bind> py_get ''properties''
      \<bind> py_get ''task_description'' \<bind> py_get ''type'') = Some (PyStr ''string'')"
  by (simp add: payload_def is_task_email_def requests_post_def Let_def)

theorem format_schema_witness:
  "(py_get ''format'' (payload sample_server ''Please send the Q3 report by Friday'' sample_world) \<bind> py_keys)
     = Some [''type'', ''properties''] \<and>
   (py_get ''format'' (payload sample_server ''Please send the Q3 report by Friday'' sample_world) \<bind> py_get ''type'')
     = Some (PyStr ''object'') \<and>
   (py_get ''format'' (payload sample_server ''Please send the Q3 report by Friday'' sample_world) \<bind> py_get ''properties''
      \<bind> py_keys)
     = Some [''result'', ''task_subject'', ''task_description''] \<and>
   (py_get ''format'' (payload sample_server ''Please send the Q3 report by Friday'' sample_world) \<bind> py_get ''properties''
      \<bind> py_get ''result'' \<bind> py_get ''type'') = Some (PyStr ''boolean'') \<and>
   (py_get ''format'' (payload sample_server ''Please send the Q3 report by Friday'' sample_world) \<bind> py_get ''properties''
      \<bind> py_get ''task_subject'' \<bind> py_get ''type'') = Some (PyStr ''string'') \<and>
   (py_get ''format'' (payload sample_server ''Please send the Q3 report by Friday'' sample_world) \<bind> py_get ''properties''
      \<bind> py_get ''task_description'' \<bind> py_get ''type'') = Some (PyStr ''string'')"
  by (rule format_schema [of sample_server "''Please send the Q3 report by Friday''" sample_world])

subsection \<open>The configuration loader\<close>

text \<open>
  C5, as claimed: the API URL is \<^verbatim>\<open>http://\<close>, the value of \<^verbatim>\<open>LOCAL_LLM_BASE_ADDRESS\<close> and
  \<^verbatim>\<open>/api/chat/completions\<close>, and with the variable absent the loader does not fail and
  the URL has an empty host. The code does not give an empty host: with the variable
  absent the loader does return, but the host of the URL is the text \<^verbatim>\<open>None\<close>.
\<close>

theorem absent_address_url_counterexample:
  "config_load [] =
     Inr \<lparr>llm_address = PyNone, api_url = ''http://None/api/chat/completions'',
          default_model = ''llama3.2:latest'', jwt = PyNone\<rparr> \<and>
   ''http://None/api/chat/completions'' \<noteq> ''http://'' @ '''' @ ''/api/chat/completions''"
  by (simp add: config_load_def os_getenv_def)

text \<open>
  C5, amended. The loader never fails. The API URL is \<^verbatim>\<open>http://\<close>, then the value of
  \<^verbatim>\<open>LOCAL_LLM_BASE_ADDRESS\<close> when the variable is set and the text \<^verbatim>\<open>None\<close> when it is
  absent, then \<^verbatim>\<open>/api/chat/completions\<close>.
\<close>

theorem api_url_interpolation:
  "\<exists>c. config_load e = Inr c \<and>
       api_url c =
         ''http://''
         @ (case map_of e ''LOCAL_LLM_BASE_ADDRESS'' of None \<Rightarrow> ''None'' | Some a \<Rightarrow> a)
         @ ''/api/chat/completions''"
  by (simp add: config_load_def os_getenv_def split: option.split)

theorem api_url_interpolation_witness:
  "\<exists>c. config_load sample_env = Inr c \<and>
       api_url c = ''http://localhost:3000/api/chat/completions''"
  using api_url_interpolation [of sample_env]
  by (simp add: sample_env_def)

subsection \<open>The messages\<close>

text \<open>
  C6. For every input string, the \<^verbatim>\<open>messages\<close> field of the payload is a list of exactly
  two dictionaries with the keys \<^verbatim>\<open>role\<close> and \<^verbatim>\<open>content\<close>: first the \<^verbatim>\<open>system\<close> turn, whose
  content is the instruction text with the rendering of the schema (the same dictionary
  that is the \<^verbatim>\<open>properties\<close> of \<^verbatim>\<open>format\<close>) inside it, then the \<^verbatim>\<open>user\<close> turn, whose content
  is the e-mail text.
\<close>

theorem messages_two_turns:
  "\<exists>schema.
     (py_get ''format'' (payload srv s w) \<bind> py_get ''properties'') = Some schema \<and>
     py_repr schema = schema_text \<and>
     py_get ''messages'' (payload srv s w) = Some (PyList
       [PyDict
          [(''role'', PyStr ''system''),
           (''content'', PyStr
              (''You are a helpful AI assistant. The user will provide the content of an email and you will respond according to the provided schema: ''
               @ py_repr schema @ ''.''))],
        PyDict
          [(''role'', PyStr ''user''),
           (''content'', PyStr s)]])"
  by (simp del: py_repr.simps
      add: payload_def is_task_email_def requests_post_def Let_def schema_repr)

theorem messages_two_turns_witness:
  "\<exists>schema.
     (py_get ''format'' (payload sample_server ''Please send the Q3 report by Friday'' sample_world) \<bind> py_get ''properties'')
       = Some schema \<and>
     py_repr schema = schema_text \<and>
     py_get ''messages'' (payload sample_server ''Please send the Q3 report by Friday'' sample_world) = Some (PyList
       [PyDict
          [(''role'', PyStr ''system''),
           (''content'', PyStr
              (''You are a helpful AI assistant. The user will provide the content of an email and you will respond according to the provided schema: ''
               @ py_repr schema @ ''.''))],
        PyDict
          [(''role'', PyStr ''user''),
           (''content'', PyStr ''Please send the Q3 report by Friday'')]])"
  by (rule messages_two_turns [of sample_server "''Please send the Q3 report by Friday''" sample_world])

subsection \<open>The result and the effects\<close>

text \<open>
  C7. The call makes one request, and what \<^verbatim>\<open>is_task_email\<close> returns is what the POST
  call produced for that request, as it is: the response with its status code, headers
  and body, or the exception the call raised.
\<close>

theorem response_unmodified:
  "\<exists>r. posted srv s w = [r] \<and> fst (is_task_email srv s w) = srv (outbox w) r"
  by (simp add: posted_def is_task_email_def requests_post_def Let_def)

theorem response_unmodified_witness:
  "(\<exists>r. posted echo_server ''Please send the Q3 report by Friday'' sample_world = [r] \<and>
        fst (is_task_email echo_server ''Please send the Q3 report by Friday'' sample_world)
          = echo_server (outbox sample_world) r) \<and>
   fst (is_task_email echo_server ''Please send the Q3 report by Friday'' sample_world)
     = Inr \<lparr>status_code = 200,
            response_headers =
              [(''Authorization'', ''Bearer secret''),
               (''Content-Type'', ''application/json'')],
            body = ''Please send the Q3 report by Friday''\<rparr>"
  using response_unmodified [of echo_server "''Please send the Q3 report by Friday''" sample_world]
  by (simp add: posted_def is_task_email_def requests_post_def Let_def echo_server_def
      sample_world_def)

text \<open>
  C8. A call changes the state only by adding one request to the trace: a POST to the
  configured URL. The imported configuration and \<^verbatim>\<open>model\<close> are as before. This holds
  whatever the service answers (nothing is sent again after a failure), and a second
  call with the same input makes a request again (nothing is cached).
\<close>

theorem one_post_no_other_effect:
  "snd (is_task_email srv s w) = w\<lparr>outbox := outbox w @ posted srv s w\<rparr> \<and>
   map verb (posted srv s w) = [POST] \<and>
   map url (posted srv s w) = [api_url (imported w)] \<and>
   imported (snd (is_task_email srv s w)) = imported w \<and>
   model (snd (is_task_email srv s w)) = model w \<and>
   posted srv s (snd (is_task_email srv s w)) = posted srv s w"
  by (simp add: posted_def is_task_email_def requests_post_def Let_def)

theorem one_post_no_other_effect_witness:
  "snd (is_task_email down_server ''Please send the Q3 report by Friday'' sample_world)
     = sample_world\<lparr>outbox := outbox sample_world @ posted down_server ''Please send the Q3 report by Friday'' sample_world\<rparr> \<and>
   map verb (posted down_server ''Please send the Q3 report by Friday'' sample_world) = [POST] \<and>
   map url (posted down_server ''Please send the Q3 report by Friday'' sample_world) = [api_url (imported sample_world)] \<and>
   imported (snd (is_task_email down_server ''Please send the Q3 report by Friday'' sample_world)) = imported sample_world \<and>
   model (snd (is_task_email down_server ''Please send the Q3 report by Friday'' sample_world)) = model sample_world \<and>
   posted down_server ''Please send the Q3 report by Friday'' (snd (is_task_email down_server ''Please send the Q3 report by Friday'' sample_world))
     = posted down_server ''Please send the Q3 report by Friday'' sample_world"
  by (rule one_post_no_other_effect [of down_server "''Please send the Q3 report by Friday''" sample_world])

subsection \<open>Independence from the e-mail text\<close>

text \<open>
  C9. With the configuration fixed (the imported names and \<^verbatim>\<open>model\<close>), the URL, the
  headers, the model name, the system message, the \<^verbatim>\<open>format\<close> object and the \<^verbatim>\<open>stream\<close>
  flag are the same for every invocation, whatever the e-mail text, the service and the
  requests made before: the request differs from one invocation to another only in the
  content of the user message.
\<close>

theorem only_user_content_varies:
  "\<exists>u hs m sys fmt. \<forall>srv s ob.
     posted srv s \<lparr>imported = c, model = mdl, outbox = ob\<rparr> =
       [\<lparr>verb = POST, url = u, headers = hs,
         json = PyDict
           [(''model'', m),
            (''messages'', PyList
               [sys, PyDict [(''role'', PyStr ''user''), (''content'', PyStr s)]]),
            (''format'', fmt),
            (''stream'', PyBool False)]\<rparr>]"
  by (simp del: py_repr.simps add: posted_def is_task_email_def requests_post_def Let_def)

theorem only_user_content_varies_witness:
  "\<exists>u hs m sys fmt. \<forall>srv s ob.
     posted srv s
       \<lparr>imported = imported sample_world, model = model sample_world, outbox = ob\<rparr> =
       [\<lparr>verb = POST, url = u, headers = hs,
         json = PyDict
           [(''model'', m),
            (''messages'', PyList
               [sys, PyDict [(''role'', PyStr ''user''), (''content'', PyStr s)]]),
            (''format'', fmt),
            (''stream'', PyBool False)]\<rparr>]"
  by (rule only_user_content_varies [of "imported sample_world" "model sample_world"])

subsection \<open>No validation of the input\<close>



end
